theory Spec2Isabelle
  imports Main
begin

section \<open>The artifact\<close>

text \<open>
  The repository consists of the single file \<^verbatim>\<open>src/harmonic_vault_interface.py\<close>.
  The file holds no Python definitions; it is a short structured note.  Its embedding is
  therefore the text itself, byte for byte (515 characters), and everything below is an
  observation computed from that text.  The line feed is written \<open>nl\<close>; the file does
  not end with one.
\<close>

definition nl :: char where
  "nl = CHR 0x0A"

definition source_text :: string where
  "source_text =
     ''# harmonic_vault_interface'' @ [nl] @
     [nl] @
     ''This module provides a unified interface for vault selection and QR-signing.'' @ [nl] @
     [nl] @
     ''## Vault Selection'' @ [nl] @
     [nl] @
     ''- Supports: Ellipal, Keystone, Trezor'' @ [nl] @
     ''- Functionality to select vault based on user preferences.'' @ [nl] @
     [nl] @
     ''## QR Signing Stubs'' @ [nl] @
     [nl] @
     ''- Implementation stubs for signing using QR codes.'' @ [nl] @
     ''- These stubs will need to be filled with the actual signing logic.'' @ [nl] @
     [nl] @
     ''## Round-Trip Validation Hooks'' @ [nl] @
     [nl] @
     ''- Interfaces for validating the signing process round-trip.'' @ [nl] @
     ''- Hooks to verify the input and output signature validity.''"

text \<open>
  Lines are obtained the way Python's \<^verbatim>\<open>str.splitlines\<close> (and every text editor)
  obtains them: the text is cut at each line feed, and a last piece that is not
  terminated by a line feed is still a line, unless it is empty.
\<close>

fun splitlines_from :: "string \<Rightarrow> string \<Rightarrow> string list" where
  "splitlines_from cur [] = (if cur = [] then [] else [rev cur])"
| "splitlines_from cur (c # cs) =
     (if c = nl then rev cur # splitlines_from [] cs else splitlines_from (c # cur) cs)"

definition splitlines :: "string \<Rightarrow> string list" where
  "splitlines s = splitlines_from [] s"

definition source_lines :: "string list" where
  "source_lines = splitlines source_text"

section \<open>Lexical observations on a line\<close>

text \<open>
  White space inside a line, as Python's tokenizer has it: the space, the tab and the
  form feed.
\<close>

definition is_space :: "char \<Rightarrow> bool" where
  "is_space c = (c = CHR '' '' \<or> c = CHR 0x09 \<or> c = CHR 0x0C)"

definition lstrip :: "string \<Rightarrow> string" where
  "lstrip l = dropWhile is_space l"

definition is_blank :: "string \<Rightarrow> bool" where
  "is_blank l = (lstrip l = [])"

fun starts_with :: "string \<Rightarrow> string \<Rightarrow> bool" where
  "starts_with [] l = True"
| "starts_with (p # ps) [] = False"
| "starts_with (p # ps) (c # cs) = (p = c \<and> starts_with ps cs)"

definition is_heading :: "string \<Rightarrow> bool" where
  "is_heading l = starts_with ''#'' l"

definition is_bullet :: "string \<Rightarrow> bool" where
  "is_bullet l = starts_with ''- '' l"

datatype line_kind = Blank | Heading | Bullet | Prose

definition classify :: "string \<Rightarrow> line_kind" where
  "classify l =
     (if is_blank l then Blank
      else if is_heading l then Heading
      else if is_bullet l then Bullet
      else Prose)"

text \<open>
  The characters of a Python identifier (ASCII), the first word of a line after its
  indentation, and all the words of a line.  A line whose first token is not an
  identifier (a heading, a bullet) has the empty first word.
\<close>

definition is_ident_char :: "char \<Rightarrow> bool" where
  "is_ident_char c =
     (let n = (of_char c :: nat) in
        (65 \<le> n \<and> n \<le> 90) \<or> (97 \<le> n \<and> n \<le> 122) \<or> (48 \<le> n \<and> n \<le> 57) \<or> n = 95)"

definition first_word :: "string \<Rightarrow> string" where
  "first_word l = takeWhile is_ident_char (lstrip l)"

definition after_first_word :: "string \<Rightarrow> string" where
  "after_first_word l = lstrip (dropWhile is_ident_char (lstrip l))"

fun words_from :: "string \<Rightarrow> string \<Rightarrow> string list" where
  "words_from cur [] = (if cur = [] then [] else [rev cur])"
| "words_from cur (c # cs) =
     (if is_ident_char c then words_from (c # cur) cs
      else if cur = [] then words_from [] cs
      else rev cur # words_from [] cs)"

definition ident_words :: "string \<Rightarrow> string list" where
  "ident_words l = words_from [] l"

section \<open>Where Python code would show\<close>

text \<open>
  Python's tokenizer drops blank lines and comment lines, those whose first character
  after the indentation is \<^verbatim>\<open>#\<close>.  \<open>python_lines\<close> are the lines it keeps,
  each with its number (from 1).  \<open>punctuation\<close> lists the characters of a text that
  are not identifier characters, each once, in the order in which they first occur.
\<close>

definition is_comment :: "string \<Rightarrow> bool" where
  "is_comment l = starts_with ''#'' (lstrip l)"

definition python_lines :: "string list \<Rightarrow> (nat \<times> string) list" where
  "python_lines ls =
     filter (\<lambda>(i, l). \<not> (is_blank l \<or> is_comment l)) (zip [1..<Suc (length ls)] ls)"

definition punctuation :: "string \<Rightarrow> string" where
  "punctuation s = rev (remdups (rev (filter (\<lambda>c. \<not> is_ident_char c) s)))"

text \<open>
  Every compound statement of Python (and so every function, class, method and
  control-flow construct) begins with a keyword; so do \<^verbatim>\<open>import\<close>,
  \<^verbatim>\<open>return\<close> and \<^verbatim>\<open>raise\<close>.  The list holds the hard keywords
  of Python 3 and the soft ones.  A statement begins at the head of a line, after a
  \<^verbatim>\<open>;\<close>, or after the \<^verbatim>\<open>:\<close> of a compound statement written on one
  line; \<open>statement_heads\<close> cuts the line at every \<^verbatim>\<open>;\<close> and
  \<^verbatim>\<open>:\<close> (more places than Python has statements) and takes the first word
  of each piece.
\<close>

fun cut_from :: "(char \<Rightarrow> bool) \<Rightarrow> string \<Rightarrow> string \<Rightarrow> string list" where
  "cut_from p cur [] = [rev cur]"
| "cut_from p cur (c # cs) =
     (if p c then rev cur # cut_from p [] cs else cut_from p (c # cur) cs)"

definition is_stmt_sep :: "char \<Rightarrow> bool" where
  "is_stmt_sep c = (c = CHR '';'' \<or> c = CHR '':'')"

definition statement_heads :: "string \<Rightarrow> string list" where
  "statement_heads l = map first_word (cut_from is_stmt_sep [] l)"

definition py_keywords :: "string list" where
  "py_keywords =
     [''False'', ''None'', ''True'', ''and'', ''as'', ''assert'', ''async'', ''await'',
      ''break'', ''class'', ''continue'', ''def'', ''del'', ''elif'', ''else'', ''except'',
      ''finally'', ''for'', ''from'', ''global'', ''if'', ''import'', ''in'', ''is'',
      ''lambda'', ''nonlocal'', ''not'', ''or'', ''pass'', ''raise'', ''return'', ''try'',
      ''while'', ''with'', ''yield'', ''match'', ''case'', ''type'']"

definition keyword_led :: "string \<Rightarrow> bool" where
  "keyword_led l = list_ex (\<lambda>w. w \<in> set py_keywords) (statement_heads l)"

definition begins_import :: "string \<Rightarrow> bool" where
  "begins_import l = (first_word l \<in> set [''import'', ''from''])"

definition begins_def :: "string \<Rightarrow> bool" where
  "begins_def l = (first_word l \<in> set [''def'', ''async''])"

definition begins_class :: "string \<Rightarrow> bool" where
  "begins_class l = (first_word l = ''class'')"

text \<open>
  An assignment statement contains \<^verbatim>\<open>=\<close> (plain, augmented, or after an
  annotation), or is a bare annotation \<^verbatim>\<open>name: type\<close>.  The test accepts every
  line that could begin one, and more.
\<close>

definition may_begin_assignment :: "string \<Rightarrow> bool" where
  "may_begin_assignment l =
     (CHR ''='' \<in> set l \<or> (first_word l \<noteq> [] \<and> starts_with '':'' (after_first_word l)))"

text \<open>
  The name a line would bind: the name after \<^verbatim>\<open>def\<close>,
  \<^verbatim>\<open>async def\<close> or \<^verbatim>\<open>class\<close> (at any indentation, so methods
  count), or the first word of a line that may begin an assignment (which is how a
  lambda or a data structure gets a name).
\<close>

definition name_after :: "string \<Rightarrow> string \<Rightarrow> string" where
  "name_after kw l = first_word (drop (length kw) (lstrip l))"

definition defined_name :: "string \<Rightarrow> string option" where
  "defined_name l =
     (if first_word l = ''def'' then Some (name_after ''def'' l)
      else if first_word l = ''class'' then Some (name_after ''class'' l)
      else if first_word l = ''async'' then Some (name_after ''def'' (drop (length ''async'') (lstrip l)))
      else if may_begin_assignment l then Some (first_word l)
      else None)"

definition defined_operations :: "string list \<Rightarrow> string list" where
  "defined_operations ls = List.map_filter defined_name ls"

definition is_defined :: "string list \<Rightarrow> string \<Rightarrow> bool" where
  "is_defined ls n = (n \<in> set (defined_operations ls))"

definition keyword_lines :: "string list \<Rightarrow> string list" where
  "keyword_lines ls = filter keyword_led ls"

text \<open>
  A line that could carry code of any kind.  One of its statements begins with a
  keyword; or it holds a character that prose written with letters, spaces and
  \<^verbatim>\<open>. , : - #\<close> does not need and Python's operators, brackets, string
  literals, numbers, decorators and line continuations do; or it holds an attribute
  reference (a dot right before a name); or one of its words is a comparison spelled
  as a word, a conditional, a lambda, a yield or an await.  The boolean operators
  \<^verbatim>\<open>and\<close> and \<^verbatim>\<open>or\<close>, which prose uses as conjunctions, are
  tested at the head of a statement only.
\<close>

definition code_chars :: string where
  "code_chars =
     ''=()<>[]{}@;+*/%&|^~!0123456789'' @ [CHR 0x22, CHR 0x27, CHR 0x5C]"

fun has_attribute :: "string \<Rightarrow> bool" where
  "has_attribute (c # d # cs) = ((c = CHR ''.'' \<and> is_ident_char d) \<or> has_attribute (d # cs))"
| "has_attribute cs = False"

definition expression_keywords :: "string list" where
  "expression_keywords =
     [''in'', ''is'', ''not'', ''if'', ''else'', ''lambda'', ''yield'', ''await'']"

definition code_candidate :: "string \<Rightarrow> bool" where
  "code_candidate l =
     (keyword_led l \<or> list_ex (\<lambda>c. c \<in> set code_chars) l \<or> has_attribute l \<or>
      list_ex (\<lambda>w. w \<in> set expression_keywords) (ident_words l))"

section \<open>The structure of the note\<close>

text \<open>
  A section is a heading line with the non-blank lines that follow it up to the next
  heading.  The level of a heading is its number of \<^verbatim>\<open>#\<close> signs, its title
  the rest of the line.  The lines are read from the last to the first; \<open>pend\<close> holds
  the lines waiting for their heading.
\<close>

datatype note_section = Section (level: nat) (title: string) (body: "string list")

definition is_hash :: "char \<Rightarrow> bool" where
  "is_hash c = (c = CHR ''#'')"

definition heading_level :: "string \<Rightarrow> nat" where
  "heading_level l = length (takeWhile is_hash l)"

definition heading_title :: "string \<Rightarrow> string" where
  "heading_title l = lstrip (dropWhile is_hash l)"

fun sect_step :: "string \<Rightarrow> string list \<times> note_section list \<Rightarrow> string list \<times> note_section list" where
  "sect_step l (pend, secs) =
     (if is_blank l then (pend, secs)
      else if is_heading l then ([], Section (heading_level l) (heading_title l) pend # secs)
      else (l # pend, secs))"

definition sections :: "string list \<Rightarrow> note_section list" where
  "sections ls = snd (foldr sect_step ls ([], []))"

definition has_bullet :: "note_section \<Rightarrow> bool" where
  "has_bullet s = list_ex is_bullet (body s)"

definition only_bullets :: "note_section \<Rightarrow> bool" where
  "only_bullets s = list_all is_bullet (body s)"

definition bullet_groups :: "string list \<Rightarrow> note_section list" where
  "bullet_groups ls = filter has_bullet (sections ls)"

definition section_body :: "string \<Rightarrow> string list \<Rightarrow> string list option" where
  "section_body t ls = map_option body (find (\<lambda>s. title s = t) (sections ls))"

definition section_code :: "string \<Rightarrow> string list \<Rightarrow> string list" where
  "section_code t ls =
     (case section_body t ls of None \<Rightarrow> [] | Some b \<Rightarrow> filter code_candidate b)"

text \<open>
  The names listed by the \<^verbatim>\<open>Supports:\<close> bullet of a section: the rest of the
  bullet, cut at the commas.
\<close>

fun split_commas_from :: "string \<Rightarrow> string \<Rightarrow> string list" where
  "split_commas_from cur [] = [rev cur]"
| "split_commas_from cur (c # cs) =
     (if c = CHR '','' then rev cur # split_commas_from [] cs
      else split_commas_from (c # cur) cs)"

definition split_commas :: "string \<Rightarrow> string list" where
  "split_commas s = map lstrip (split_commas_from [] s)"

definition supports_prefix :: string where
  "supports_prefix = ''- Supports:''"

definition listed_names :: "string \<Rightarrow> string list" where
  "listed_names l =
     (if starts_with supports_prefix l then split_commas (drop (length supports_prefix) l)
      else [])"

definition supported_vaults :: "string list \<Rightarrow> string list" where
  "supported_vaults ls =
     (case section_body ''Vault Selection'' ls of
        None \<Rightarrow> []
      | Some b \<Rightarrow> concat (map listed_names b))"

section \<open>The observations at work\<close>

text \<open>
  On small Python fragments the observations find what is there: the names bound (also
  behind a form feed), the lines with a statement led by a keyword (also after a
  \<^verbatim>\<open>;\<close> or a \<^verbatim>\<open>:\<close>), the lines that could carry code, the
  lines Python keeps, and the kinds of lines.
\<close>

lemma defined_operations_sample:
  "defined_operations
     [''import os'', ''def f(x):'', ''    return x'', ''class A:'',
      ''    async def g(self): pass'', ''h = lambda: 3'', ''print(h())'',
      [CHR 0x0C] @ ''class B: pass'']
   = [''f'', ''A'', ''g'', ''h'', ''B'']"
  by code_simp

lemma keyword_lines_sample:
  "keyword_lines
     [''import os'', ''x'', ''  if x:'', ''0; import this'', ''x; raise E'',
      ''if x: return'', [CHR 0x0C] @ ''pass'', ''This module'']
   = [''import os'', ''  if x:'', ''0; import this'', ''x; raise E'', ''if x: return'',
      [CHR 0x0C] @ ''pass'']"
  by code_simp

lemma code_candidate_sample:
  "filter code_candidate
     [''1/0'', ''a.b'', ''x in y'', ''x is y'', ''f(x)'', ''x = 3'', ''0; import this'',
      ''This module provides.'', ''- Supports: a, b'']
   = [''1/0'', ''a.b'', ''x in y'', ''x is y'', ''f(x)'', ''x = 3'', ''0; import this'']"
  by code_simp

lemma python_lines_sample:
  "python_lines [''# note'', [], ''  # more'', ''x = 1'', ''   '', ''def f(): pass''] =
     [(4, ''x = 1''), (6, ''def f(): pass'')]"
  by code_simp

lemma classify_sample:
  "map classify [''   '', ''#x'', ''- a'', ''-a'', ''def f():''] =
     [Blank, Heading, Bullet, Prose, Prose]"
  by code_simp

lemma splitlines_sample:
  "splitlines [] = [] \<and> splitlines [nl] = [[]] \<and> splitlines (''ab'' @ [nl]) = [''ab''] \<and>
   splitlines (''ab'' @ [nl] @ ''c'') = [''ab'', ''c'']"
  by code_simp

lemma sections_sample:
  "sections [''intro'', ''# A'', ''x'', [], ''## B'', ''- p'', ''q''] =
     [Section 1 ''A'' [''x''], Section 2 ''B'' [''- p'', ''q'']]"
  by code_simp

section \<open>The lines and sections of the file\<close>

lemma source_lines_eq:
  "source_lines =
     [''# harmonic_vault_interface'',
      [],
      ''This module provides a unified interface for vault selection and QR-signing.'',
      [],
      ''## Vault Selection'',
      [],
      ''- Supports: Ellipal, Keystone, Trezor'',
      ''- Functionality to select vault based on user preferences.'',
      [],
      ''## QR Signing Stubs'',
      [],
      ''- Implementation stubs for signing using QR codes.'',
      ''- These stubs will need to be filled with the actual signing logic.'',
      [],
      ''## Round-Trip Validation Hooks'',
      [],
      ''- Interfaces for validating the signing process round-trip.'',
      ''- Hooks to verify the input and output signature validity.'']"
  by code_simp

lemma sections_source:
  "sections source_lines =
     [Section 1 ''harmonic_vault_interface''
        [''This module provides a unified interface for vault selection and QR-signing.''],
      Section 2 ''Vault Selection''
        [''- Supports: Ellipal, Keystone, Trezor'',
         ''- Functionality to select vault based on user preferences.''],
      Section 2 ''QR Signing Stubs''
        [''- Implementation stubs for signing using QR codes.'',
         ''- These stubs will need to be filled with the actual signing logic.''],
      Section 2 ''Round-Trip Validation Hooks''
        [''- Interfaces for validating the signing process round-trip.'',
         ''- Hooks to verify the input and output signature validity.'']]"
  by code_simp

lemma defined_operations_source: "defined_operations source_lines = []"
  by code_simp

lemma not_defined_source: "\<not> is_defined source_lines n"
  by (simp add: is_defined_def defined_operations_source)

lemma code_candidate_source: "filter code_candidate source_lines = []"
  by code_simp

section \<open>The claims\<close>

text \<open>
  C1. The file defines no operations at all.  Of its 18 lines Python keeps seven, the
  line of prose and the six bullets, which are shown word for word; the other eleven
  are blank or comments.  The only characters that are not letters or underscores are
  the hash sign, the space, the line feed, the hyphen, the full stop, the colon and the
  comma: no semicolon, bracket, operator sign, quote, digit or form feed.  No line binds
  a name (no function, class, method, lambda or data structure), so whatever the name,
  it is not defined; no statement of any line is led by a keyword, so there is no
  control-flow construct; and no line could carry code.  The list of operations the
  program provides is empty.
\<close>

theorem no_operations_defined:
  "python_lines source_lines =
     [(3, ''This module provides a unified interface for vault selection and QR-signing.''),
      (7, ''- Supports: Ellipal, Keystone, Trezor''),
      (8, ''- Functionality to select vault based on user preferences.''),
      (12, ''- Implementation stubs for signing using QR codes.''),
      (13, ''- These stubs will need to be filled with the actual signing logic.''),
      (17, ''- Interfaces for validating the signing process round-trip.''),
      (18, ''- Hooks to verify the input and output signature validity.'')] \<and>
   punctuation source_text = ''# '' @ [nl] @ ''-.:,'' \<and>
   defined_operations source_lines = [] \<and>
   (\<forall>n. \<not> is_defined source_lines n) \<and>
   keyword_lines source_lines = [] \<and>
   filter code_candidate source_lines = []"
proof -
  have p: "python_lines source_lines =
     [(3, ''This module provides a unified interface for vault selection and QR-signing.''),
      (7, ''- Supports: Ellipal, Keystone, Trezor''),
      (8, ''- Functionality to select vault based on user preferences.''),
      (12, ''- Implementation stubs for signing using QR codes.''),
      (13, ''- These stubs will need to be filled with the actual signing logic.''),
      (17, ''- Interfaces for validating the signing process round-trip.''),
      (18, ''- Hooks to verify the input and output signature validity.'')]"
    by code_simp
  have q: "punctuation source_text = ''# '' @ [nl] @ ''-.:,''"
    by code_simp
  have k: "keyword_lines source_lines = []"
    by code_simp
  from p q k defined_operations_source not_defined_source code_candidate_source
  show ?thesis by simp
qed

text \<open>
  C2, as stated: the file consists of exactly 17 lines of text.  It does not: cut at its
  line feeds, the text has 18 lines.
\<close>

theorem line_count_is_not_17: "length (splitlines source_text) \<noteq> 17"
  by code_simp

text \<open>
  C2, amended.  The file consists of exactly 18 lines of text: it holds 17 line feeds,
  and after the last of them comes a further line, a bullet, which no line feed ends.
  Seven of the lines are blank and eleven are not.
\<close>

theorem line_count_is_18:
  "length source_lines = 18 \<and>
   count_list source_text nl = 17 \<and>
   last source_text \<noteq> nl \<and>
   last source_lines = ''- Hooks to verify the input and output signature validity.'' \<and>
   length (filter is_blank source_lines) = 7"
proof -
  have "count_list source_text nl = 17"
    by code_simp
  moreover have "last source_text \<noteq> nl"
    by code_simp
  moreover have "length (filter is_blank source_lines) = 7"
    by code_simp
  ultimately show ?thesis
    by (simp add: source_lines_eq)
qed

text \<open>
  C4. The file has exactly three groups of bullets: the sections titled Vault Selection,
  QR Signing Stubs and Round-Trip Validation Hooks, each a second-level heading beneath
  the first-level title heading, and each holding bullets only.  Every bullet line of
  the file lies in one of the three, and none of them could carry code.
\<close>

theorem three_bullet_groups:
  "map title (bullet_groups source_lines) =
     [''Vault Selection'', ''QR Signing Stubs'', ''Round-Trip Validation Hooks''] \<and>
   list_all only_bullets (bullet_groups source_lines) \<and>
   map level (bullet_groups source_lines) = [2, 2, 2] \<and>
   map (\<lambda>s. (level s, title s)) (sections source_lines) =
     [(1, ''harmonic_vault_interface''), (2, ''Vault Selection''),
      (2, ''QR Signing Stubs''), (2, ''Round-Trip Validation Hooks'')] \<and>
   concat (map body (bullet_groups source_lines)) = filter is_bullet source_lines \<and>
   filter code_candidate (concat (map body (bullet_groups source_lines))) = []"
proof -
  have g: "bullet_groups source_lines = tl (sections source_lines)"
    unfolding bullet_groups_def sections_source by code_simp
  have b: "filter is_bullet source_lines =
      [''- Supports: Ellipal, Keystone, Trezor'',
       ''- Functionality to select vault based on user preferences.'',
       ''- Implementation stubs for signing using QR codes.'',
       ''- These stubs will need to be filled with the actual signing logic.'',
       ''- Interfaces for validating the signing process round-trip.'',
       ''- Hooks to verify the input and output signature validity.'']"
    by code_simp
  have o: "list_all only_bullets (tl (sections source_lines))"
    unfolding sections_source by code_simp
  have c: "filter code_candidate (filter is_bullet source_lines) = []"
    by code_simp
  have cc: "concat (map body (tl (sections source_lines))) = filter is_bullet source_lines"
    unfolding b by (simp add: sections_source)
  show ?thesis
    unfolding g using o c cc by (simp add: sections_source)
qed

text \<open>
  C5. The Vault Selection section names exactly three vendor targets, Ellipal, Keystone
  and Trezor, in that order.  Its body is two bullets of prose: neither is led by a
  keyword, and neither holds a character that a comparison, a call or an assignment
  needs, so the section has no criterion, predicate or logic that could run.
\<close>

theorem vault_selection_names_three_vendors:
  "supported_vaults source_lines = [''Ellipal'', ''Keystone'', ''Trezor''] \<and>
   length (supported_vaults source_lines) = 3 \<and>
   section_body ''Vault Selection'' source_lines =
     Some [''- Supports: Ellipal, Keystone, Trezor'',
           ''- Functionality to select vault based on user preferences.''] \<and>
   section_code ''Vault Selection'' source_lines = []"
proof -
  have b: "section_body ''Vault Selection'' source_lines =
     Some [''- Supports: Ellipal, Keystone, Trezor'',
           ''- Functionality to select vault based on user preferences.'']"
    unfolding section_body_def sections_source by code_simp
  have v: "supported_vaults source_lines = [''Ellipal'', ''Keystone'', ''Trezor'']"
    unfolding supported_vaults_def b by code_simp
  have c: "section_code ''Vault Selection'' source_lines = []"
    unfolding section_code_def b by code_simp
  show ?thesis
    using b c by (simp add: v)
qed



text \<open>
  C10. Every line of the file is blank, a heading beginning with \<^verbatim>\<open>#\<close>, a
  bullet beginning with \<^verbatim>\<open>- \<close>, or plain prose: four headings, six bullets,
  seven blank lines and one line of prose, in the order shown.  No line begins an
  import, a def, a class or an assignment.
\<close>

theorem lines_are_markdown:
  "map classify source_lines =
     [Heading, Blank, Prose, Blank,
      Heading, Blank, Bullet, Bullet, Blank,
      Heading, Blank, Bullet, Bullet, Blank,
      Heading, Blank, Bullet, Bullet] \<and>
   filter begins_import source_lines = [] \<and>
   filter begins_def source_lines = [] \<and>
   filter begins_class source_lines = [] \<and>
   filter may_begin_assignment source_lines = []"
proof -
  have "map classify source_lines =
     [Heading, Blank, Prose, Blank,
      Heading, Blank, Bullet, Bullet, Blank,
      Heading, Blank, Bullet, Bullet, Blank,
      Heading, Blank, Bullet, Bullet]"
    by code_simp
  moreover have "filter begins_import source_lines = []"
    by code_simp
  moreover have "filter begins_def source_lines = []"
    by code_simp
  moreover have "filter begins_class source_lines = []"
    by code_simp
  moreover have "filter may_begin_assignment source_lines = []"
    by code_simp
  ultimately show ?thesis
    by simp
qed

end
